theory Spec2Isabelle
  imports Complex_Main
begin

section \<open>The extended SEIR model of \<open>SEIR+.py\<close>\<close>

text \<open>
  The model follows the class \<open>SEIR\<close> of \<open>src/SEIR+.py\<close>. Python and numpy floats
  are read as real numbers; the non-finite values that numpy produces (\<open>nan\<close>,
  \<open>inf\<close>) are made explicit where the code tests for them.
\<close>

subsection \<open>Errors\<close>

datatype error = TypeError | IndexError | AttributeError | ZeroDivisionError

definition bind_err :: "error + 'a \<Rightarrow> ('a \<Rightarrow> error + 'b) \<Rightarrow> error + 'b" where
  "bind_err r f = (case r of Inl e \<Rightarrow> Inl e | Inr v \<Rightarrow> f v)"

subsection \<open>The ODE right-hand side\<close>

text \<open>
  A state is the 9-tuple \<open>(S, E, I, R, H, C, D, CT, CH)\<close> that \<open>differential\<close>
  unpacks, and the derivative is the 9-tuple it returns.
\<close>

type_synonym state = "real \<times> real \<times> real \<times> real \<times> real \<times> real \<times> real \<times> real \<times> real"

text \<open>
  \<open>differential\<close> (lines 121-136). The two quotients have the divisor
  \<open>S + I + E + R + H + C + D\<close>. When it is zero the quotient is no real number
  (numpy floats give \<open>nan\<close> or \<open>inf\<close>, plain Python numbers raise): the result is
  \<open>None\<close>.
\<close>

fun differential ::
  "state \<Rightarrow> real \<Rightarrow> real \<Rightarrow> real \<Rightarrow> real \<Rightarrow> real \<Rightarrow> real \<Rightarrow> real \<Rightarrow> real \<Rightarrow> real \<Rightarrow> real \<Rightarrow> real
     \<Rightarrow> state option" where
  "differential (S, E, I, R, H, C, D, CT, CH) time beta sigma gamma hp hcr pc pd pcr s t =
     (if S + I + E + R + H + C + D = 0 then None
      else
        let dS = - (beta * S * I) / (S + I + E + R + H + C + D);
            dE = ((beta * S * I) / (S + I + E + R + H + C + D)) - (sigma * E);
            dI = (sigma * E) - (gamma * I) - (hp * I);
            dH = (hp * I) - (hcr * H) - (pc * H);
            dC = (pc * H) - (pd * C) - (pcr * C);
            dD = (pd * C);
            dR = (gamma * I) + (hcr * H) + (pcr * C);
            dCT = sigma * E;
            dCH = hp * I
        in Some (dS, dE, dI, dR, dH, dC, dD, dCT, dCH))"

text \<open>
  The call \<open>func(y, t, *args)\<close> that the integrator makes with \<open>func = self.differential\<close>:
  \<open>differential\<close> takes ten parameters after the state and the time, and a tuple of
  another length is a \<open>TypeError\<close>.
\<close>

fun call_differential :: "state \<Rightarrow> real \<Rightarrow> real list \<Rightarrow> error + state option" where
  "call_differential y tm [beta, sigma, gamma, hp, hcr, pc, pd, pcr, s, t] =
     Inr (differential y tm beta sigma gamma hp hcr pc pd pcr s t)"
| "call_differential y tm args = Inl TypeError"

text \<open>The sum of the seven compartment components of a derivative.\<close>

fun compartment_sum :: "state \<Rightarrow> real" where
  "compartment_sum (dS, dE, dI, dR, dH, dC, dD, dCT, dCH) = dS + dE + dI + dR + dH + dC + dD"

subsection \<open>Normalisation of degenerate binomial inputs\<close>

text \<open>
  The sequence that \<open>objective\<close> applies to \<open>(k, n)\<close> in each of its six parts
  (lines 254-263 and the five copies below them): both negative, negate both;
  \<open>k > n\<close>, swap; \<open>k\<close> still negative, \<open>k = 1\<close> and then \<open>n += k + 1\<close>.
\<close>

definition normalize_kn :: "real \<times> real \<Rightarrow> real \<times> real" where
  "normalize_kn kn =
     (let (k, n) = kn;
          (k, n) = (if k < 0 \<and> n < 0 then (k * (- 1), n * (- 1)) else (k, n));
          (k, n) = (if k > n then (n, k) else (k, n));
          (k, n) = (if k < 0 then (1, n + (1 + 1)) else (k, n))
      in (k, n))"

subsection \<open>Floating-point values that are not real numbers\<close>

text \<open>
  Where the code tests a float for being positive, \<open>- inf\<close> or \<open>nan\<close>, the value
  is an \<open>npfloat\<close>: a real number, one of the two infinities, or \<open>nan\<close>. Rounding
  and overflow of finite values are not modelled.
\<close>

datatype npfloat = Fin real | PInf | NInf | NaN

text \<open>The comparison \<open>x > 0\<close>: false on \<open>nan\<close>.\<close>

fun fl_gt0 :: "npfloat \<Rightarrow> bool" where
  "fl_gt0 (Fin v) = (v > 0)"
| "fl_gt0 PInf = True"
| "fl_gt0 NInf = False"
| "fl_gt0 NaN = False"

text \<open>\<open>np.log\<close>: \<open>- inf\<close> at zero, \<open>nan\<close> below zero.\<close>

fun np_log :: "npfloat \<Rightarrow> npfloat" where
  "np_log (Fin v) = (if v > 0 then Fin (ln v) else if v = 0 then NInf else NaN)"
| "np_log PInf = PInf"
| "np_log NInf = NaN"
| "np_log NaN = NaN"

fun fl_neg :: "npfloat \<Rightarrow> npfloat" where
  "fl_neg (Fin v) = Fin (- v)"
| "fl_neg PInf = NInf"
| "fl_neg NInf = PInf"
| "fl_neg NaN = NaN"

fun fl_add :: "npfloat \<Rightarrow> npfloat \<Rightarrow> npfloat" where
  "fl_add (Fin a) (Fin b) = Fin (a + b)"
| "fl_add NaN b = NaN"
| "fl_add a NaN = NaN"
| "fl_add PInf NInf = NaN"
| "fl_add NInf PInf = NaN"
| "fl_add PInf b = PInf"
| "fl_add a PInf = PInf"
| "fl_add NInf b = NInf"
| "fl_add a NInf = NInf"

definition fl_sub :: "npfloat \<Rightarrow> npfloat \<Rightarrow> npfloat" where
  "fl_sub a b = fl_add a (fl_neg b)"

text \<open>The product of a float and a finite factor (a weight, a constant).\<close>

fun fl_scale :: "npfloat \<Rightarrow> real \<Rightarrow> npfloat" where
  "fl_scale (Fin a) w = Fin (a * w)"
| "fl_scale NaN w = NaN"
| "fl_scale PInf w = (if w > 0 then PInf else if w < 0 then NInf else NaN)"
| "fl_scale NInf w = (if w > 0 then NInf else if w < 0 then PInf else NaN)"

text \<open>The quotient of two finite numpy values: no exception on a zero divisor.\<close>

definition np_divide :: "real \<Rightarrow> real \<Rightarrow> npfloat" where
  "np_divide a b =
     (if b \<noteq> 0 then Fin (a / b)
      else if a > 0 then PInf else if a < 0 then NInf else NaN)"

text \<open>The comparison \<open>a < b\<close>: false when either side is \<open>nan\<close>.\<close>

fun fl_less :: "npfloat \<Rightarrow> npfloat \<Rightarrow> bool" where
  "fl_less (Fin a) (Fin b) = (a < b)"
| "fl_less NaN b = False"
| "fl_less a NaN = False"
| "fl_less a NInf = False"
| "fl_less PInf b = False"
| "fl_less NInf b = True"
| "fl_less a PInf = True"

text \<open>\<open>np.around\<close> and \<open>round\<close> on a float: to the nearest integer, a half to the even one.\<close>

definition np_around :: "real \<Rightarrow> real" where
  "np_around v =
     (let f = \<lfloor>v\<rfloor>; d = v - of_int f
      in if d < 1 / 2 then of_int f
         else if d > 1 / 2 then of_int (f + 1)
         else if even f then of_int f else of_int (f + 1))"

subsection \<open>Indexing\<close>

text \<open>
  \<open>xs[i]\<close> on a list, a tuple or an array row: a negative index counts from the
  end, an index out of range raises \<open>IndexError\<close>.
\<close>

definition py_get :: "'a list \<Rightarrow> int \<Rightarrow> error + 'a" where
  "py_get xs i =
     (if 0 \<le> i \<and> i < int (length xs) then Inr (xs ! nat i)
      else if i < 0 \<and> 0 \<le> int (length xs) + i then Inr (xs ! nat (int (length xs) + i))
      else Inl IndexError)"

text \<open>A row of a trajectory, indexed as the array row it is.\<close>

fun state_row :: "state \<Rightarrow> real list" where
  "state_row (S, E, I, R, H, C, D, CT, CH) = [S, E, I, R, H, C, D, CT, CH]"

text \<open>\<open>pred[i][j]\<close>.\<close>

definition pred_get :: "state list \<Rightarrow> int \<Rightarrow> int \<Rightarrow> error + real" where
  "pred_get pred i j = bind_err (py_get pred i) (\<lambda>row. py_get (state_row row) j)"

text \<open>\<open>self.dataset[i][j]\<close>; the dataset is \<open>None\<close> until \<open>import_dataset\<close> has run.\<close>

definition dataset_get :: "real list list option \<Rightarrow> int \<Rightarrow> int \<Rightarrow> error + real" where
  "dataset_get ds i j =
     (case ds of None \<Rightarrow> Inl TypeError
      | Some rows \<Rightarrow> bind_err (py_get rows i) (\<lambda>row. py_get row j))"

text \<open>\<open>self.dataset.shape[0]\<close>.\<close>

definition dataset_shape0 :: "real list list option \<Rightarrow> error + int" where
  "dataset_shape0 ds = (case ds of None \<Rightarrow> Inl AttributeError | Some rows \<Rightarrow> Inr (int (length rows)))"

subsection \<open>The model object\<close>

text \<open>The fields that \<open>__init__\<close> sets (lines 16-100).\<close>

record SEIR =
  beta :: real
  sigma :: real
  gamma :: real
  hp :: real
  hcr :: real
  pc :: real
  pd :: real
  pcr :: real
  s :: real
  t :: real
  dataframe :: "real list list option"
  dataset :: "real list list option"
  I_0 :: npfloat
  E_0 :: npfloat
  R_0 :: npfloat
  S_0 :: npfloat
  H_0 :: npfloat
  C_0 :: npfloat
  D_0 :: npfloat
  CT_0 :: npfloat
  w_1 :: real
  w_2 :: real
  w_3 :: real
  w_4 :: real
  w_5 :: real
  w_6 :: real
  overflow :: real
  smoothing :: bool
  b_s_1 :: int
  b_s_2 :: int
  b_s_3 :: int
  b_s_4 :: int
  b_s_5 :: int
  b_s_6 :: int
  opti_step :: real
  beta_min :: real
  beta_max :: real
  sigma_min :: real
  sigma_max :: real
  gamma_min :: real
  gamma_max :: real
  hp_min :: real
  hp_max :: real
  hcr_min :: real
  hcr_max :: real
  pc_min :: real
  pc_max :: real
  pd_min :: real
  pd_max :: real
  pcr_min :: real
  pcr_max :: real
  s_min :: real
  s_max :: real
  t_min :: real
  t_max :: real
  cobyla :: bool
  LBFGSB :: bool
  auto :: bool

text \<open>The object that \<open>SEIR()\<close> constructs.\<close>

definition SEIR_init :: SEIR where
  "SEIR_init =
     \<lparr> beta = 3 / 10, sigma = 8 / 10, gamma = 15 / 100, hp = 5 / 100, hcr = 2 / 10,
       pc = 1 / 10, pd = 1 / 10, pcr = 3 / 10, s = 765 / 1000, t = 75 / 100,
       dataframe = None, dataset = None,
       I_0 = Fin 2, E_0 = Fin 3, R_0 = Fin 0, S_0 = Fin (1000000 - 2 - 3),
       H_0 = Fin 0, C_0 = Fin 0, D_0 = Fin 0, CT_0 = Fin 2,
       w_1 = 7 / 10, w_2 = 3 / 10, w_3 = 7 / 10, w_4 = 3 / 10, w_5 = 1, w_6 = 1,
       overflow = - 1000,
       smoothing = False,
       b_s_1 = 6, b_s_2 = 2, b_s_3 = 6, b_s_4 = 2, b_s_5 = 4, b_s_6 = 4,
       opti_step = 5 / 100,
       beta_min = 1 / 10, beta_max = 9 / 10,
       sigma_min = 1 / 5, sigma_max = 1,
       gamma_min = 1 / 10, gamma_max = 1 / 4,
       hp_min = 1 / 100, hp_max = 5 / 10,
       hcr_min = 1 / 100, hcr_max = 4 / 10,
       pc_min = 1 / 100, pc_max = 4 / 10,
       pd_min = 1 / 100, pd_max = 5 / 10,
       pcr_min = 1 / 100, pcr_max = 4 / 10,
       s_min = 7 / 10, s_max = 85 / 100,
       t_min = 5 / 10, t_max = 1,
       cobyla = True, LBFGSB = False, auto = False \<rparr>"

text \<open>\<open>get_parameters\<close> (lines 102-105).\<close>

definition get_parameters :: "SEIR \<Rightarrow> real list" where
  "get_parameters m = [beta m, sigma m, gamma m, hp m, hcr m, pc m, pd m, pcr m, s m, t m]"

text \<open>\<open>get_initial_state\<close> (lines 107-119).\<close>

definition get_initial_state :: "SEIR \<Rightarrow> error + state" where
  "get_initial_state m =
     bind_err (dataset_get (dataset m) 0 1) (\<lambda>I0.
     bind_err (dataset_get (dataset m) 0 3) (\<lambda>H0.
       let E0 = I0;
           D0 = 0;
           C0 = 0;
           S0 = 1000000 - I0 - H0 - E0;
           R0 = 0;
           CT0 = I0;
           CH0 = H0
       in Inr (S0, E0, I0, R0, H0, C0, D0, CT0, CH0)))"

subsection \<open>Simulation\<close>

text \<open>\<open>np.arange(duration)\<close>: the grid \<open>0, 1, ..., duration - 1\<close>, empty when \<open>duration \<le> 0\<close>.\<close>

definition np_arange :: "int \<Rightarrow> real list" where
  "np_arange duration = map real_of_int [0 .. duration - 1]"

text \<open>
  \<open>scipy.integrate.odeint\<close> is library code. Its result has one row for each entry
  of \<open>t\<close>: the first row is \<open>y0\<close> itself, and each further row is the state that the
  LSODA solver reaches at the next output time from the row before. The solver is
  a parameter \<open>lsoda rhs y t tout\<close>; it evaluates the right-hand side, so that an
  exception of that call ends the integration. For an empty grid the model returns
  the empty trajectory.
\<close>

type_synonym lsoda = "(state \<Rightarrow> real \<Rightarrow> state option) \<Rightarrow> state \<Rightarrow> real \<Rightarrow> real \<Rightarrow> state"

fun odeint_rows ::
  "lsoda \<Rightarrow> (state \<Rightarrow> real \<Rightarrow> real list \<Rightarrow> error + state option) \<Rightarrow> real list
     \<Rightarrow> state \<Rightarrow> real \<Rightarrow> real list \<Rightarrow> error + state list" where
  "odeint_rows solver func args y tm [] = Inr []"
| "odeint_rows solver func args y tm (tout # ts) =
     bind_err (func y tm args) (\<lambda>_.
       let y' = solver (\<lambda>u v. case func u v args of Inl e \<Rightarrow> None | Inr d \<Rightarrow> d) y tm tout
       in bind_err (odeint_rows solver func args y' tout ts) (\<lambda>rows. Inr (y' # rows)))"

definition odeint ::
  "lsoda \<Rightarrow> (state \<Rightarrow> real \<Rightarrow> real list \<Rightarrow> error + state option) \<Rightarrow> state \<Rightarrow> real list
     \<Rightarrow> real list \<Rightarrow> error + state list" where
  "odeint solver func y0 ts args =
     (case ts of [] \<Rightarrow> Inr []
      | t0 # rest \<Rightarrow> bind_err (odeint_rows solver func args y0 t0 rest) (\<lambda>rows. Inr (y0 # rows)))"

text \<open>\<open>predict\<close> (lines 138-156).\<close>

definition predict ::
  "lsoda \<Rightarrow> SEIR \<Rightarrow> int \<Rightarrow> state option \<Rightarrow> real list option \<Rightarrow> error + state list" where
  "predict solver m duration initial_state parameters =
     (let time = np_arange duration;
          prm = (case parameters of None \<Rightarrow> get_parameters m | Some p \<Rightarrow> p)
      in bind_err (case initial_state of None \<Rightarrow> get_initial_state m | Some i \<Rightarrow> Inr i)
           (\<lambda>init. odeint solver call_differential init time prm))"

subsection \<open>The objective\<close>

text \<open>
  \<open>scipy.stats.binom.pmf(k=k, n=n, p=p)\<close> is library code and a parameter of the
  model: any function from \<open>(k, n, p)\<close> to a float, \<open>nan\<close> included.
\<close>

type_synonym pmf = "real \<Rightarrow> real \<Rightarrow> real \<Rightarrow> npfloat"

text \<open>
  One likelihood term of \<open>objective\<close>, from \<open>p = 1 / self.b_s_1\<close> to the \<open>else\<close>
  branch (lines 253-269, and the same lines of parts 2 to 6): \<open>n0\<close> is the rounded
  prediction, \<open>k0\<close> the observation, \<open>b_s\<close> the smoothing factor of the part.
\<close>

definition binom_term :: "pmf \<Rightarrow> real \<Rightarrow> int \<Rightarrow> real \<Rightarrow> real \<Rightarrow> error + npfloat" where
  "binom_term binom_pmf ovf b_s n0 k0 =
     (if b_s = 0 then Inl ZeroDivisionError
      else
        let p = 1 / of_int b_s;
            (k, n) = normalize_kn (k0, n0);
            n = n * of_int b_s;
            prob = binom_pmf k n p
        in Inr (if fl_gt0 prob then np_log (binom_pmf k n p) else Fin ovf))"

text \<open>
  The list \<open>conta\<close> (lines 236-240): first \<open>pred[0][7]\<close>, then one entry
  \<open>pred[i][7] - pred[i-1][7]\<close> for each \<open>i\<close> of \<open>range(0, pred.shape[0])\<close>.
\<close>

fun conta_loop :: "state list \<Rightarrow> int list \<Rightarrow> real list \<Rightarrow> error + real list" where
  "conta_loop pred [] conta = Inr conta"
| "conta_loop pred (i # is) conta =
     bind_err (pred_get pred i 7) (\<lambda>a.
     bind_err (pred_get pred (i - 1) 7) (\<lambda>b.
       conta_loop pred is (conta @ [a - b])))"

definition conta :: "state list \<Rightarrow> error + real list" where
  "conta pred =
     bind_err (pred_get pred 0 7) (\<lambda>c0.
       conta_loop pred [0 .. int (length pred) - 1] [c0])"

text \<open>\<open>prb -= p_k * w\<close> after a term.\<close>

definition prb_minus :: "npfloat \<Rightarrow> npfloat \<Rightarrow> real \<Rightarrow> npfloat" where
  "prb_minus prb p_k w = fl_sub prb (fl_scale p_k w)"

text \<open>The body of the loop over \<open>i\<close> (lines 246-391): the six parts in their order.\<close>

definition objective_row ::
  "pmf \<Rightarrow> SEIR \<Rightarrow> real list \<Rightarrow> state list \<Rightarrow> real list \<Rightarrow> int \<Rightarrow> npfloat \<Rightarrow> error + npfloat" where
  "objective_row binom_pmf m params pred cnt i prb =
     bind_err (py_get params 8) (\<lambda>a8. bind_err (py_get params 9) (\<lambda>a9.
     bind_err (pred_get pred i 7) (\<lambda>v1.
     bind_err (dataset_get (dataset m) i 7) (\<lambda>k1.
     bind_err (binom_term binom_pmf (overflow m) (b_s_1 m) (np_around (v1 * (a8 * a9))) k1) (\<lambda>p_k1.
     let prb = prb_minus prb p_k1 (w_1 m) in
     bind_err (py_get params 8) (\<lambda>c8. bind_err (py_get params 9) (\<lambda>c9.
     bind_err (py_get cnt i) (\<lambda>v2.
     bind_err (dataset_get (dataset m) i 1) (\<lambda>k2.
     bind_err (binom_term binom_pmf (overflow m) (b_s_2 m) (np_around (v2 * (c8 * c9))) k2) (\<lambda>p_k2.
     let prb = prb_minus prb p_k2 (w_2 m) in
     bind_err (pred_get pred i 4) (\<lambda>v3.
     bind_err (dataset_get (dataset m) i 3) (\<lambda>k3.
     bind_err (binom_term binom_pmf (overflow m) (b_s_3 m) (np_around v3) k3) (\<lambda>p_k3.
     let prb = prb_minus prb p_k3 (w_3 m) in
     bind_err (pred_get pred i 8) (\<lambda>v4.
     bind_err (dataset_get (dataset m) i 4) (\<lambda>k4.
     bind_err (binom_term binom_pmf (overflow m) (b_s_4 m) (np_around v4) k4) (\<lambda>p_k4.
     let prb = prb_minus prb p_k4 (w_4 m) in
     bind_err (pred_get pred i 5) (\<lambda>v5.
     bind_err (dataset_get (dataset m) i 5) (\<lambda>k5.
     bind_err (binom_term binom_pmf (overflow m) (b_s_5 m) (np_around v5) k5) (\<lambda>p_k5.
     let prb = prb_minus prb p_k5 (w_5 m) in
     bind_err (pred_get pred i 6) (\<lambda>v6.
     bind_err (dataset_get (dataset m) i 6) (\<lambda>k6.
     bind_err (binom_term binom_pmf (overflow m) (b_s_6 m) (np_around v6) k6) (\<lambda>p_k6.
     let prb = prb_minus prb p_k6 (w_6 m) in
     Inr prb))))))))))))))))))))))"

fun objective_loop ::
  "pmf \<Rightarrow> SEIR \<Rightarrow> real list \<Rightarrow> state list \<Rightarrow> real list \<Rightarrow> int list \<Rightarrow> npfloat \<Rightarrow> error + npfloat" where
  "objective_loop binom_pmf m params pred cnt [] prb = Inr prb"
| "objective_loop binom_pmf m params pred cnt (i # is) prb =
     bind_err (objective_row binom_pmf m params pred cnt i prb) (\<lambda>prb'.
       objective_loop binom_pmf m params pred cnt is prb')"

text \<open>
  \<open>objective\<close> (lines 228-404), without its printing. With another \<open>method\<close> than
  \<open>'method_1'\<close> the function falls through and returns Python's \<open>None\<close>.
\<close>

definition objective ::
  "lsoda \<Rightarrow> pmf \<Rightarrow> SEIR \<Rightarrow> real list \<Rightarrow> string \<Rightarrow> error + npfloat option" where
  "objective solver binom_pmf m parameters method =
     (if method = ''method_1'' then
        let params = parameters in
        bind_err (dataset_shape0 (dataset m)) (\<lambda>d.
        bind_err (predict solver m d None (Some params)) (\<lambda>pred.
        bind_err (conta pred) (\<lambda>cnt.
        bind_err (objective_loop binom_pmf m params pred cnt [0 .. int (length pred) - 1] (Fin 0))
          (\<lambda>prb. Inr (Some prb)))))
      else Inr None)"

subsection \<open>Fitting\<close>

text \<open>
  \<open>scipy.optimize.minimize\<close> is library code and a parameter of the model. It
  receives the function to minimise, the start vector and what the call passes
  besides (method, bounds, constraints, step size), and returns an error or a result
  object, of which the code reads the field \<open>x\<close>.
\<close>

datatype OptimizeResult = OptimizeResult (res_x: "real list") (res_success: bool)

datatype minimize_call =
    Call_LBFGSB "(real \<times> real) list"
  | Call_COBYLA real "(real list \<Rightarrow> error + real) list"
  | Call_auto "(real list \<Rightarrow> error + real) list" real "(real \<times> real) list"

type_synonym minimize =
  "(real list \<Rightarrow> error + npfloat option) \<Rightarrow> real list \<Rightarrow> minimize_call \<Rightarrow> error + OptimizeResult"

text \<open>The constraint functions \<open>lambda x: -x[j] + max\<close> and \<open>lambda x: x[j] - min\<close>.\<close>

definition cons_max :: "int \<Rightarrow> real \<Rightarrow> real list \<Rightarrow> error + real" where
  "cons_max j bound v = bind_err (py_get v j) (\<lambda>a. Inr (- a + bound))"

definition cons_min :: "int \<Rightarrow> real \<Rightarrow> real list \<Rightarrow> error + real" where
  "cons_min j bound v = bind_err (py_get v j) (\<lambda>a. Inr (a - bound))"

text \<open>\<open>self.dataset[:, 0]\<close>: the column of a two-dimensional array.\<close>

fun column_loop :: "real list list \<Rightarrow> int \<Rightarrow> error + real list" where
  "column_loop [] j = Inr []"
| "column_loop (row # rows) j =
     bind_err (py_get row j) (\<lambda>a. bind_err (column_loop rows j) (\<lambda>col. Inr (a # col)))"

definition dataset_column :: "real list list option \<Rightarrow> int \<Rightarrow> error + real list" where
  "dataset_column ds j = (case ds of None \<Rightarrow> Inl TypeError | Some rows \<Rightarrow> column_loop rows j)"

text \<open>
  \<open>fit\<close> (lines 158-226), without its printing. The calls for L-BFGS-B and COBYLA
  pass \<open>args=('method_1')\<close>; the third call passes no \<open>args\<close>, so that the optimizer's
  call of \<open>objective\<close> lacks the argument \<open>method\<close>, a \<open>TypeError\<close>.
\<close>

definition fit :: "minimize \<Rightarrow> lsoda \<Rightarrow> pmf \<Rightarrow> SEIR \<Rightarrow> error + SEIR" where
  "fit minimize solver binom_pmf m =
     (let init_prm = [beta m, sigma m, gamma m, hp m, hcr m, pc m, pd m, pcr m, s m, t m] in
      bind_err (get_initial_state m) (\<lambda>init_state.
      bind_err (dataset_column (dataset m) 0) (\<lambda>time.
      let bds = [(beta_min m, beta_max m), (sigma_min m, sigma_max m), (gamma_min m, gamma_max m),
                 (hp_min m, hp_max m), (hcr_min m, hcr_max m), (pc_min m, pc_max m),
                 (pd_min m, pd_max m), (pcr_min m, pcr_max m), (s_min m, s_max m),
                 (t_min m, t_max m)];
          cons = [cons_max 0 (beta_max m), cons_max 1 (sigma_max m), cons_max 2 (gamma_max m),
                  cons_max 3 (hp_max m), cons_max 4 (hcr_max m), cons_max 5 (pc_max m),
                  cons_max 6 (pd_max m), cons_max 7 (pcr_max m), cons_max 8 (s_max m),
                  cons_max 9 (t_max m),
                  cons_min 0 (beta_min m), cons_min 1 (sigma_min m), cons_min 2 (gamma_min m),
                  cons_min 3 (hp_min m), cons_min 4 (hcr_min m), cons_min 5 (pc_min m),
                  cons_min 6 (pd_min m), cons_min 7 (pcr_min m), cons_min 8 (s_min m),
                  cons_min 9 (t_min m)]
      in
      bind_err
        (if LBFGSB m then
           minimize (\<lambda>v. objective solver binom_pmf m v ''method_1'') init_prm (Call_LBFGSB bds)
         else if cobyla m then
           minimize (\<lambda>v. objective solver binom_pmf m v ''method_1'') init_prm
             (Call_COBYLA (opti_step m) cons)
         else
           minimize (\<lambda>v. Inl TypeError) init_prm (Call_auto cons (opti_step m) bds))
        (\<lambda>res.
      bind_err (py_get (res_x res) 0) (\<lambda>x0.
      bind_err (py_get (res_x res) 1) (\<lambda>x1.
      bind_err (py_get (res_x res) 2) (\<lambda>x2.
      bind_err (py_get (res_x res) 3) (\<lambda>x3.
      bind_err (py_get (res_x res) 4) (\<lambda>x4.
      bind_err (py_get (res_x res) 5) (\<lambda>x5.
      bind_err (py_get (res_x res) 6) (\<lambda>x6.
      bind_err (py_get (res_x res) 7) (\<lambda>x7.
      bind_err (py_get (res_x res) 8) (\<lambda>x8.
      bind_err (py_get (res_x res) 9) (\<lambda>x9.
        Inr (m\<lparr>beta := x0, sigma := x1, gamma := x2, hp := x3, hcr := x4, pc := x5,
                pd := x6, pcr := x7, s := x8, t := x9\<rparr>)))))))))))))))"

subsection \<open>Loading the dataset\<close>

text \<open>
  \<open>import_dataset\<close> (lines 408-425). The frame read from the CSV file is a parameter,
  a list of rows; \<open>num_positive\<close> is column 1 of the file, and the assignment
  \<open>raw['num_positive'][0] = 1\<close> writes into the frame. \<open>insert(7, ...)\<close> needs seven
  columns in the frame, and \<open>self.dataset[0][1]\<close> a first row. \<open>dataframe_smoothing\<close>
  comes from the module \<open>smoothing\<close> and is a parameter.
\<close>

definition insert_column :: "real list list \<Rightarrow> real list \<Rightarrow> real list list" where
  "insert_column rows col = map (\<lambda>(row, c). take 7 row @ [c] @ drop 7 row) (zip rows col)"

definition import_dataset ::
  "(real list list \<Rightarrow> real list list) \<Rightarrow> real list list \<Rightarrow> SEIR \<Rightarrow> error + SEIR" where
  "import_dataset dataframe_smoothing csv m =
     (if csv = [] \<or> (\<exists>row \<in> set csv. length row < 7) then Inl IndexError
      else
        let raw = csv[0 := (csv ! 0)[1 := 1]];
            cumul_positive = map (\<lambda>row. row ! 1) raw;
            raw = insert_column raw cumul_positive;
            m = (if smoothing m then m\<lparr>dataframe := Some (dataframe_smoothing raw)\<rparr>
                 else m\<lparr>dataframe := Some raw\<rparr>);
            m = m\<lparr>dataset := dataframe m\<rparr>
        in
        bind_err (dataset_get (dataset m) 0 1) (\<lambda>d.
          let m = m\<lparr>I_0 := np_divide d (s m * t m)\<rparr>;
              m = m\<lparr>E_0 := fl_scale (I_0 m) 5\<rparr>;
              m = m\<lparr>R_0 := Fin 0\<rparr>;
              m = m\<lparr>S_0 := fl_sub (fl_sub (Fin 1000000) (I_0 m)) (E_0 m)\<rparr>
          in Inr m))"

text \<open>The cumulative sum of a column, as the specification describes column 7.\<close>

fun cumsum_from :: "real \<Rightarrow> real list \<Rightarrow> real list" where
  "cumsum_from acc [] = []"
| "cumsum_from acc (v # vs) = (acc + v) # cumsum_from (acc + v) vs"

definition cumsum_spec :: "real list \<Rightarrow> real list" where
  "cumsum_spec vs = cumsum_from 0 vs"

subsection \<open>The sensitivity sweep\<close>

text \<open>\<open>np.linspace(start, stop, num)\<close>.\<close>

definition np_linspace :: "real \<Rightarrow> real \<Rightarrow> nat \<Rightarrow> real list" where
  "np_linspace start stop num =
     map (\<lambda>j. start + real j * ((stop - start) / real (num - 1))) [0 ..< num]"

text \<open>The loop over \<open>i\<close> of \<open>sensib_finder\<close> (lines 451-461).\<close>

fun sensib_prb ::
  "pmf \<Rightarrow> SEIR \<Rightarrow> real list \<Rightarrow> state list \<Rightarrow> int list \<Rightarrow> npfloat \<Rightarrow> error + npfloat" where
  "sensib_prb binom_pmf m params pred [] prb = Inr prb"
| "sensib_prb binom_pmf m params pred (i # is) prb =
     bind_err (py_get params (- 1)) (\<lambda>p.
     let p = p / 2 in
     bind_err (pred_get pred i 4) (\<lambda>v.
     let n = np_around (v * 2) in
     bind_err (dataset_get (dataset m) i 1) (\<lambda>d.
     let k = np_around d;
         p_k = np_log (binom_pmf k n p);
         p_k = (if p_k = NInf \<or> p_k = NaN then Fin (- 1000) else p_k)
     in sensib_prb binom_pmf m params pred is (fl_add prb p_k))))"

text \<open>The prediction of one grid point (lines 445-447).\<close>

definition sensib_predict :: "lsoda \<Rightarrow> SEIR \<Rightarrow> error + state list" where
  "sensib_predict solver m =
     (let params = [beta m, sigma m, gamma m, s m] in
      bind_err (dataset_shape0 (dataset m)) (\<lambda>d.
        predict solver m d None (Some params)))"

text \<open>
  The loop over \<open>j\<close> (lines 438-465), on the model, the list \<open>accuracies\<close> and the
  pair \<open>best\<close>.
\<close>

fun sensib_loop ::
  "minimize \<Rightarrow> lsoda \<Rightarrow> pmf \<Rightarrow> real list \<Rightarrow> nat list
     \<Rightarrow> SEIR \<times> npfloat list \<times> (npfloat \<times> real)
     \<Rightarrow> error + (SEIR \<times> npfloat list \<times> (npfloat \<times> real))" where
  "sensib_loop minimize solver binom_pmf sensib_range [] st = Inr st"
| "sensib_loop minimize solver binom_pmf sensib_range (j # js) (m, accuracies, best) =
     bind_err (py_get sensib_range (int j)) (\<lambda>sj.
     bind_err (fit minimize solver binom_pmf (m\<lparr>s := sj\<rparr>)) (\<lambda>m.
     let params = [beta m, sigma m, gamma m, s m] in
     bind_err (sensib_predict solver m) (\<lambda>pred.
     bind_err (sensib_prb binom_pmf m params pred [0 .. int (length pred) - 1] (Fin 0)) (\<lambda>prb.
     let accuracies = accuracies @ [fl_neg prb];
         best = (if fl_less (fl_neg prb) (fst best) then (fl_neg prb, sj) else best)
     in sensib_loop minimize solver binom_pmf sensib_range js (m, accuracies, best)))))"

text \<open>\<open>sensib_finder\<close> (lines 427-470), without its printing and plotting.\<close>

definition sensib_finder :: "minimize \<Rightarrow> lsoda \<Rightarrow> pmf \<Rightarrow> SEIR \<Rightarrow> error + SEIR" where
  "sensib_finder minimize solver binom_pmf m =
     (let range_size = 50;
          sensib_range = np_linspace (1 / 10) 1 range_size
      in
      bind_err (get_initial_state m) (\<lambda>init_state.
      bind_err (sensib_loop minimize solver binom_pmf sensib_range [0 ..< range_size]
                  (m, [], (PInf, 0)))
        (\<lambda>(m, accuracies, best). Inr (m\<lparr>s := snd best\<rparr>))))"

subsection \<open>Example inputs\<close>

text \<open>
  Stand-ins for the library parameters, and two small datasets with the eight
  columns of the loaded data: a solver that keeps the state, an optimizer that
  returns its start vector without reporting success.
\<close>

definition hold_solver :: lsoda where
  "hold_solver rhs y a b = y"

definition minimize_start :: minimize where
  "minimize_start obj x0 call = Inr (OptimizeResult x0 False)"

definition two_rows :: "real list list" where
  "two_rows = [[0, 1, 10, 10, 10, 0, 0, 1], [1, 2, 10, 20, 30, 0, 0, 2]]"

definition one_row :: "real list list" where
  "one_row = [[0, 1, 10, 10, 10, 0, 0, 1]]"

section \<open>Properties\<close>

subsection \<open>The force-of-infection divisor\<close>

text \<open>
  C1, as stated: \<open>dS\<close> is \<open>- beta * S * I\<close> over \<open>S + I + E + R + H + C\<close>, without
  \<open>D\<close>. In the state \<open>S = 1, I = 1, D = 1\<close> with \<open>beta = 1\<close> the code returns
  \<open>dS = - 1 / 3\<close>, where the stated formula gives \<open>- 1 / 2\<close>.
\<close>

theorem differential_dS_excluding_D_counterexample:
  "map_option fst (differential (1, 0, 1, 0, 0, 0, 1, 0, 0) 0 1 0 0 0 0 0 0 0 0 0)
     = Some (- 1 / 3)
   \<and> map_option fst (differential (1, 0, 1, 0, 0, 0, 1, 0, 0) 0 1 0 0 0 0 0 0 0 0 0)
     \<noteq> Some (- (1 * 1 * 1) / (1 + 1 + 0 + 0 + 0 + 0))"
  by simp

text \<open>
  C1, amended: whenever the population \<open>S + I + E + R + H + C + D\<close>, with \<open>D\<close>, is
  not zero, \<open>dS\<close> is \<open>- beta * S * I\<close> over that population and \<open>dE\<close> is the same
  quotient, positive, less \<open>sigma * E\<close>.
\<close>

theorem differential_dS_dE:
  fixes S E I R H C D CT CH time beta sigma gamma hp hcr pc pd pcr s t :: real
  assumes "S + I + E + R + H + C + D \<noteq> 0"
  shows "\<exists>dI dR dH dC dD dCT dCH.
           differential (S, E, I, R, H, C, D, CT, CH) time beta sigma gamma hp hcr pc pd pcr s t
             = Some (- (beta * S * I) / (S + I + E + R + H + C + D),
                     (beta * S * I) / (S + I + E + R + H + C + D) - sigma * E,
                     dI, dR, dH, dC, dD, dCT, dCH)"
  using assms by (simp add: Let_def)

theorem differential_dS_dE_witness:
  "(1::real) + 1 + 0 + 0 + 0 + 0 + 1 \<noteq> 0
   \<and> (\<exists>dI dR dH dC dD dCT dCH.
         differential (1, 0, 1, 0, 0, 0, 1, 0, 0) 0 1 0 0 0 0 0 0 0 0 0
           = Some (- (1 * 1 * 1) / (1 + 1 + 0 + 0 + 0 + 0 + 1),
                   (1 * 1 * 1) / (1 + 1 + 0 + 0 + 0 + 0 + 1) - 0 * 0,
                   dI, dR, dH, dC, dD, dCT, dCH))"
proof -
  have h: "(1::real) + 1 + 0 + 0 + 0 + 0 + 1 \<noteq> 0" by simp
  show ?thesis
    using h differential_dS_dE [OF h, where CT = 0 and CH = 0 and time = 0 and beta = 1
        and sigma = 0 and gamma = 0 and hp = 0 and hcr = 0 and pc = 0 and pd = 0 and pcr = 0
        and s = 0 and t = 0]
    by simp
qed

subsection \<open>Conservation of the population\<close>

text \<open>
  C5, as stated: for every state the seven compartment derivatives sum to zero.
  In the state with all compartments zero the divisor is zero and the code returns
  no derivative at all.
\<close>

theorem differential_conservation_counterexample:
  "differential (0, 0, 0, 0, 0, 0, 0, 0, 0) 0 (3 / 10) (4 / 5) (3 / 20) (1 / 20) (1 / 5)
     (1 / 10) (1 / 10) (3 / 10) (153 / 200) (3 / 4) = None"
  by simp

text \<open>
  C5, amended: for every state whose population \<open>S + I + E + R + H + C + D\<close> is not
  zero and for all parameter values, \<open>differential\<close> returns a derivative whose
  seven compartment components \<open>dS + dE + dI + dR + dH + dC + dD\<close> sum to exactly
  zero.
\<close>

theorem differential_conservation:
  fixes S E I R H C D CT CH time beta sigma gamma hp hcr pc pd pcr s t :: real
  assumes "S + I + E + R + H + C + D \<noteq> 0"
  shows "\<exists>d. differential (S, E, I, R, H, C, D, CT, CH) time beta sigma gamma hp hcr pc pd pcr s t
               = Some d
             \<and> compartment_sum d = 0"
  using assms by (simp add: Let_def)

theorem differential_conservation_witness:
  "(999995::real) + 2 + 3 + 0 + 0 + 0 + 0 \<noteq> 0
   \<and> (\<exists>d. differential (999995, 3, 2, 0, 0, 0, 0, 2, 0) 0 (3 / 10) (4 / 5) (3 / 20) (1 / 20)
              (1 / 5) (1 / 10) (1 / 10) (3 / 10) (153 / 200) (3 / 4) = Some d
            \<and> compartment_sum d = 0)"
proof -
  have h: "(999995::real) + 2 + 3 + 0 + 0 + 0 + 0 \<noteq> 0" by simp
  show ?thesis
    using h differential_conservation [OF h, where CT = 2 and CH = 0 and time = 0
        and beta = "3 / 10" and sigma = "4 / 5" and gamma = "3 / 20" and hp = "1 / 20"
        and hcr = "1 / 5" and pc = "1 / 10" and pd = "1 / 10" and pcr = "3 / 10"
        and s = "153 / 200" and t = "3 / 4"]
    by simp
qed

subsection \<open>Idempotence of the normalisation\<close>

text \<open>
  C6: for every pair of reals \<open>(k, n)\<close>, normalising twice gives the same pair as
  normalising once.
\<close>

theorem normalize_kn_idempotent:
  "normalize_kn (normalize_kn (k, n)) = normalize_kn (k, n)"
  by (simp add: normalize_kn_def Let_def)

subsection \<open>The trajectory of \<open>predict\<close>\<close>

lemma call_differential_ten:
  "length args = 10 \<Longrightarrow> \<exists>d. call_differential y tm args = Inr d"
  by (auto simp: length_Suc_conv eval_nat_numeral)

lemma odeint_rows_ten:
  "length args = 10 \<Longrightarrow>
     \<exists>rows. odeint_rows solver call_differential args y tm ts = Inr rows
            \<and> length rows = length ts"
proof (induction ts arbitrary: y tm)
  case Nil
  then show ?case by simp
next
  case (Cons tout ts)
  obtain d where d: "call_differential y tm args = Inr d"
    using call_differential_ten [OF Cons.prems] by blast
  define y' where
    "y' = solver (\<lambda>u v. case call_differential u v args of Inl e \<Rightarrow> None | Inr d \<Rightarrow> d) y tm tout"
  obtain rows where r:
    "odeint_rows solver call_differential args y' tout ts = Inr rows" "length rows = length ts"
    using Cons.IH [OF Cons.prems] by blast
  show ?case using d r by (simp add: bind_err_def Let_def y'_def)
qed

lemma np_arange_pos: "0 < d \<Longrightarrow> np_arange d = 0 # map real_of_int [1 .. d - 1]"
  by (simp add: np_arange_def upto_rec1 [of 0])

text \<open>
  C7: for every duration \<open>d > 0\<close>, every initial state and every tuple of ten
  parameters (or the model's own parameters, when none is given), \<open>predict\<close> returns
  a trajectory of exactly \<open>d\<close> rows whose row 0 is the initial state. The witness
  is the scenario \<open>duration = 1\<close>, initial state \<open>(999995, 3, 2, 0, 0, 0, 0, 2, 0)\<close>,
  default parameters.
\<close>

theorem predict_rows:
  assumes "0 < duration" and "\<forall>p. parameters = Some p \<longrightarrow> length p = 10"
  shows "\<exists>tr. predict solver m duration (Some init) parameters = Inr tr
           \<and> int (length tr) = duration \<and> tr ! 0 = init"
proof -
  define prm where "prm = (case parameters of None \<Rightarrow> get_parameters m | Some p \<Rightarrow> p)"
  have len: "length prm = 10"
    using assms(2) by (cases parameters) (simp_all add: prm_def get_parameters_def)
  obtain rows where r:
    "odeint_rows solver call_differential prm init 0 (map real_of_int [1 .. duration - 1])
       = Inr rows"
    "length rows = length (map real_of_int [1 .. duration - 1])"
    using odeint_rows_ten [OF len] by blast
  show ?thesis using assms(1) r
    by (simp add: predict_def odeint_def np_arange_pos bind_err_def prm_def [symmetric])
qed

theorem predict_rows_witness:
  "(0::int) < 1
   \<and> predict (\<lambda>rhs y a b. y) SEIR_init 1 (Some (999995, 3, 2, 0, 0, 0, 0, 2, 0)) None
       = Inr [(999995, 3, 2, 0, 0, 0, 0, 2, 0)]"
proof -
  have h1: "(0::int) < 1" by simp
  have h2: "\<forall>p. (None :: real list option) = Some p \<longrightarrow> length p = 10" by simp
  obtain tr where tr:
    "predict (\<lambda>rhs y a b. y) SEIR_init 1 (Some (999995, 3, 2, 0, 0, 0, 0, 2, 0)) None = Inr tr"
    "int (length tr) = 1" "tr ! 0 = (999995, 3, 2, 0, 0, 0, 0, 2, 0)"
    using predict_rows [OF h1 h2] by blast
  from tr(2) have "length tr = 1" by simp
  then obtain r where "tr = [r]" by (cases tr) auto
  with tr show ?thesis by simp
qed

subsection \<open>The floor of a likelihood term\<close>

text \<open>
  C2: a likelihood term of \<open>objective\<close> is never \<open>- inf\<close> and never \<open>nan\<close>, and
  whenever the smoothing factor is not zero and the binomial pmf at the normalised
  \<open>(k, n, p)\<close> is not positive (zero, negative or \<open>nan\<close>), the term is the model's
  overflow floor, which is \<open>- 1000\<close> in the constructed model.
\<close>

theorem binom_term_floor:
  "binom_term binom_pmf (overflow m) b_s n0 k0 \<noteq> Inr NInf
   \<and> binom_term binom_pmf (overflow m) b_s n0 k0 \<noteq> Inr NaN
   \<and> (b_s \<noteq> 0
        \<and> \<not> fl_gt0 (binom_pmf (fst (normalize_kn (k0, n0)))
                       (snd (normalize_kn (k0, n0)) * of_int b_s) (1 / of_int b_s))
      \<longrightarrow> binom_term binom_pmf (overflow m) b_s n0 k0 = Inr (Fin (overflow m)))
   \<and> overflow SEIR_init = - 1000"
proof -
  have "np_log v \<noteq> NInf \<and> np_log v \<noteq> NaN" if "fl_gt0 v" for v
    using that by (cases v) auto
  then show ?thesis
    by (auto simp: binom_term_def Let_def SEIR_init_def split: prod.splits)
qed

theorem binom_term_floor_witness:
  "(6::int) \<noteq> 0
   \<and> \<not> fl_gt0 ((\<lambda>k n p. if 1000 < n then Fin 0 else Fin (1 / 2))
                  (fst (normalize_kn (3, 500))) (snd (normalize_kn (3, 500)) * of_int 6)
                  (1 / of_int 6))
   \<and> binom_term (\<lambda>k n p. if 1000 < n then Fin 0 else Fin (1 / 2))
        (overflow SEIR_init) 6 500 3 = Inr (Fin (- 1000))"
proof -
  have h: "(6::int) \<noteq> 0
    \<and> \<not> fl_gt0 ((\<lambda>k n p. if 1000 < n then Fin 0 else Fin (1 / 2))
                   (fst (normalize_kn (3, 500))) (snd (normalize_kn (3, 500)) * of_int 6)
                   (1 / of_int 6))"
    by (simp add: normalize_kn_def)
  have "binom_term (\<lambda>k n p. if 1000 < n then Fin 0 else Fin (1 / 2))
          (overflow SEIR_init) 6 500 3 = Inr (Fin (overflow SEIR_init))"
    and "overflow SEIR_init = - 1000"
    using binom_term_floor [of "\<lambda>k n p. if 1000 < n then Fin 0 else Fin (1 / 2)"
        SEIR_init 6 500 3] h
    by blast+
  then show ?thesis using h by simp
qed

subsection \<open>The daily incidence\<close>

lemma length_state_row: "length (state_row r) = 9"
  by (cases r rule: state_row.cases) simp

lemma pred_get_in_range:
  "0 \<le> i \<Longrightarrow> i < int (length pred) \<Longrightarrow> 0 \<le> j \<Longrightarrow> j < 9 \<Longrightarrow>
     pred_get pred i j = Inr (state_row (pred ! nat i) ! nat j)"
  by (simp add: pred_get_def py_get_def bind_err_def length_state_row)

lemma pred_get_last:
  "pred \<noteq> [] \<Longrightarrow> 0 \<le> j \<Longrightarrow> j < 9 \<Longrightarrow>
     pred_get pred (- 1) j = Inr (state_row (last pred) ! nat j)"
  by (simp add: pred_get_def py_get_def bind_err_def length_state_row last_conv_nth
      nat_diff_distrib')

lemma conta_loop_upto:
  "1 \<le> a \<Longrightarrow> b < int (length pred) \<Longrightarrow>
     conta_loop pred [a .. b] acc =
       Inr (acc @ map (\<lambda>i. state_row (pred ! nat i) ! 7 - state_row (pred ! nat (i - 1)) ! 7)
                    [a .. b])"
proof (induction a b arbitrary: acc rule: upto.induct)
  case (1 i j)
  show ?case
  proof (cases "i \<le> j")
    case True
    then have u: "[i .. j] = i # [i + 1 .. j]" by (rule upto_rec1)
    have g1: "pred_get pred i 7 = Inr (state_row (pred ! nat i) ! 7)"
      using pred_get_in_range [of i pred 7] 1(2,3) True by simp
    have g2: "pred_get pred (i - 1) 7 = Inr (state_row (pred ! nat (i - 1)) ! 7)"
      using pred_get_in_range [of "i - 1" pred 7] 1(2,3) True by simp
    have ih: "conta_loop pred [i + 1 .. j] acc' =
       Inr (acc' @ map (\<lambda>i. state_row (pred ! nat i) ! 7 - state_row (pred ! nat (i - 1)) ! 7)
                     [i + 1 .. j])" for acc'
      using 1(1) [OF True] 1(2,3) by simp
    show ?thesis
      by (simp add: u g1 g2 ih bind_err_def)
  next
    case False
    then show ?thesis by simp
  qed
qed

text \<open>
  What \<open>conta\<close> holds for a trajectory of \<open>N \<ge> 1\<close> rows: \<open>N + 1\<close> entries, entry 0
  is \<open>CT[0]\<close>, entry 1 is \<open>CT[0] - CT[N-1]\<close> (the index \<open>-1\<close> of the first turn of
  the loop is the last row), and entry \<open>i + 1\<close> is \<open>CT[i] - CT[i-1]\<close> for \<open>i \<ge> 1\<close>.
  Part 2 of \<open>objective\<close> reads entry \<open>i\<close> at time step \<open>i\<close>.
\<close>

lemma conta_entries:
  assumes "pred \<noteq> []"
  shows "conta pred =
     Inr (state_row (pred ! 0) ! 7
          # (state_row (pred ! 0) ! 7 - state_row (last pred) ! 7)
          # map (\<lambda>i. state_row (pred ! nat i) ! 7 - state_row (pred ! nat (i - 1)) ! 7)
              [1 .. int (length pred) - 1])"
proof -
  have len: "0 < int (length pred)" using assms by simp
  have u: "[0 .. int (length pred) - 1] = 0 # [1 .. int (length pred) - 1]"
    using len by (simp add: upto_rec1 [of 0])
  have g0: "pred_get pred 0 7 = Inr (state_row (pred ! 0) ! 7)"
    using pred_get_in_range [of 0 pred 7] len by simp
  have gl: "pred_get pred (- 1) 7 = Inr (state_row (last pred) ! 7)"
    using pred_get_last [OF assms, of 7] by simp
  show ?thesis
    by (simp add: conta_def u g0 gl bind_err_def conta_loop_upto)
qed

lemma upto_0_2: "[0 .. (2::int)] = [0, 1, 2]"
  by (simp add: upto_rec1)

text \<open>
  C3 says that the value used at time step \<open>i > 0\<close> is \<open>CT[i] - CT[i-1]\<close>, with no
  wraparound. On the trajectory with \<open>CT = 2, 5, 9\<close> the code builds the list
  \<open>2, 2 - 9, 5 - 2, 9 - 5\<close>: the value used at step 1 is \<open>CT[0] - CT[2] = - 7\<close>, not
  \<open>CT[1] - CT[0] = 3\<close>, and the value used at step 2 is \<open>CT[1] - CT[0] = 3\<close>, not
  \<open>CT[2] - CT[1] = 4\<close>.
\<close>

theorem conta_wraparound:
  "conta [(0, 0, 0, 0, 0, 0, 0, 2, 0), (0, 0, 0, 0, 0, 0, 0, 5, 0), (0, 0, 0, 0, 0, 0, 0, 9, 0)]
     = Inr [2, 2 - 9, 5 - 2, 9 - 5]
   \<and> bind_err (conta [(0, 0, 0, 0, 0, 0, 0, 2, 0), (0, 0, 0, 0, 0, 0, 0, 5, 0),
                        (0, 0, 0, 0, 0, 0, 0, 9, 0)]) (\<lambda>cnt. py_get cnt 1) = Inr (- 7)
   \<and> bind_err (conta [(0, 0, 0, 0, 0, 0, 0, 2, 0), (0, 0, 0, 0, 0, 0, 0, 5, 0),
                        (0, 0, 0, 0, 0, 0, 0, 9, 0)]) (\<lambda>cnt. py_get cnt 2) = Inr 3"
  by (simp add: conta_def pred_get_def py_get_def bind_err_def upto_0_2)

subsection \<open>Column 7 of the dataset\<close>

text \<open>
  C4 says that column 7 is the cumulative sum of column 1. On a file whose
  \<open>num_positive\<close> column is \<open>5, 2, 3\<close>, \<open>import_dataset\<close> sets row 0 to \<open>1\<close> and
  appends the column itself: column 7 is \<open>1, 2, 3\<close>, where the cumulative sum is
  \<open>1, 3, 6\<close>.
\<close>

theorem import_dataset_column7:
  "bind_err (import_dataset dataframe_smoothing
       [[0, 5, 10, 1, 1, 0, 0], [1, 2, 10, 2, 3, 0, 0], [2, 3, 10, 3, 6, 1, 0]] SEIR_init)
     (\<lambda>m. dataset_column (dataset m) 7) = Inr [1, 2, 3]
   \<and> bind_err (import_dataset dataframe_smoothing
       [[0, 5, 10, 1, 1, 0, 0], [1, 2, 10, 2, 3, 0, 0], [2, 3, 10, 3, 6, 1, 0]] SEIR_init)
     (\<lambda>m. dataset_column (dataset m) 1) = Inr [1, 2, 3]
   \<and> cumsum_spec [1, 2, 3] = [1, 3, 6]"
  by (simp add: import_dataset_def insert_column_def SEIR_init_def dataset_get_def
      dataset_column_def py_get_def bind_err_def cumsum_spec_def Let_def)

subsection \<open>What \<open>fit\<close> changes\<close>

lemma bind_err_Inr: "bind_err r f = Inr v \<longleftrightarrow> (\<exists>a. r = Inr a \<and> f a = Inr v)"
  by (cases r) (simp_all add: bind_err_def)

lemma bind_err_map_sum: "bind_err (map_sum id g r0) F = bind_err r0 (\<lambda>r. F (g r))"
  by (cases r0) (simp_all add: bind_err_def)

lemma py_get_Inr_nonneg:
  "0 \<le> i \<Longrightarrow> py_get xs i = Inr v \<longleftrightarrow> (nat i < length xs \<and> v = xs ! nat i)"
  by (auto simp: py_get_def)

text \<open>
  A run of \<open>fit\<close> that returns has read the initial state, has called the optimizer
  once from the model's parameters, and has stored the first ten components of the
  result.
\<close>

lemma fit_Inr:
  assumes "fit minimize solver binom_pmf m = Inr m'"
  shows "\<exists>obj call res st0.
           get_initial_state m = Inr st0
         \<and> minimize obj (get_parameters m) call = Inr res
         \<and> 10 \<le> length (res_x res)
         \<and> m' = m\<lparr>beta := res_x res ! 0, sigma := res_x res ! 1, gamma := res_x res ! 2,
                  hp := res_x res ! 3, hcr := res_x res ! 4, pc := res_x res ! 5,
                  pd := res_x res ! 6, pcr := res_x res ! 7, s := res_x res ! 8,
                  t := res_x res ! 9\<rparr>"
proof -
  from assms obtain st0 obj call res where
    a: "get_initial_state m = Inr st0" and
    e: "minimize obj (get_parameters m) call = Inr res" and
    c: "9 < length (res_x res)" and
    d: "m' = m\<lparr>beta := res_x res ! 0, sigma := res_x res ! 1, gamma := res_x res ! 2,
                  hp := res_x res ! 3, hcr := res_x res ! 4, pc := res_x res ! 5,
                  pd := res_x res ! 6, pcr := res_x res ! 7, s := res_x res ! 8,
                  t := res_x res ! 9\<rparr>"
    unfolding fit_def Let_def bind_err_Inr get_parameters_def
    by (auto simp: py_get_Inr_nonneg split: if_splits)
  from c have f: "10 \<le> length (res_x res)" by simp
  show ?thesis
    apply (rule exI [of _ obj], rule exI [of _ call], rule exI [of _ res], rule exI [of _ st0])
    apply (intro conjI)
       apply (rule a)
      apply (rule e)
     apply (rule f)
    apply (rule d)
    done
qed

text \<open>The field \<open>success\<close> of the optimizer's result has no part in \<open>fit\<close>.\<close>

lemma fit_success_irrelevant:
  "fit (\<lambda>obj x0 call. map_sum id (\<lambda>r. OptimizeResult (res_x r) (b r)) (minimize obj x0 call))
       solver binom_pmf m
   = fit minimize solver binom_pmf m"
  by (simp add: fit_def Let_def bind_err_map_sum)

text \<open>
  C8: when \<open>fit\<close> completes, the ten parameter fields hold the first ten components
  of the vector the optimizer returned; setting these ten fields back gives the
  model as it was, so nothing else has changed, in particular neither the dataset,
  the weights, the smoothing factors, the overflow floor nor the bounds; and the
  same model results when the optimizer reports the opposite success flag.
\<close>

theorem fit_overwrites_parameters:
  assumes "fit minimize solver binom_pmf m = Inr m'"
  shows "\<exists>obj call res.
           minimize obj (get_parameters m) call = Inr res
         \<and> beta m' = res_x res ! 0 \<and> sigma m' = res_x res ! 1 \<and> gamma m' = res_x res ! 2
         \<and> hp m' = res_x res ! 3 \<and> hcr m' = res_x res ! 4 \<and> pc m' = res_x res ! 5
         \<and> pd m' = res_x res ! 6 \<and> pcr m' = res_x res ! 7 \<and> s m' = res_x res ! 8
         \<and> t m' = res_x res ! 9
         \<and> m'\<lparr>beta := beta m, sigma := sigma m, gamma := gamma m, hp := hp m, hcr := hcr m,
               pc := pc m, pd := pd m, pcr := pcr m, s := s m, t := t m\<rparr> = m
         \<and> dataset m' = dataset m \<and> dataframe m' = dataframe m
         \<and> [w_1 m', w_2 m', w_3 m', w_4 m', w_5 m', w_6 m']
             = [w_1 m, w_2 m, w_3 m, w_4 m, w_5 m, w_6 m]
         \<and> [b_s_1 m', b_s_2 m', b_s_3 m', b_s_4 m', b_s_5 m', b_s_6 m']
             = [b_s_1 m, b_s_2 m, b_s_3 m, b_s_4 m, b_s_5 m, b_s_6 m]
         \<and> overflow m' = overflow m
         \<and> [beta_min m', beta_max m', sigma_min m', sigma_max m', gamma_min m', gamma_max m',
             hp_min m', hp_max m', hcr_min m', hcr_max m', pc_min m', pc_max m',
             pd_min m', pd_max m', pcr_min m', pcr_max m', s_min m', s_max m',
             t_min m', t_max m']
             = [beta_min m, beta_max m, sigma_min m, sigma_max m, gamma_min m, gamma_max m,
                hp_min m, hp_max m, hcr_min m, hcr_max m, pc_min m, pc_max m,
                pd_min m, pd_max m, pcr_min m, pcr_max m, s_min m, s_max m,
                t_min m, t_max m]
         \<and> fit (\<lambda>obj x0 call. map_sum id (\<lambda>r. OptimizeResult (res_x r) (\<not> res_success r))
                   (minimize obj x0 call)) solver binom_pmf m = Inr m'"
proof -
  from fit_Inr [OF assms] obtain obj call res st0 where
    e: "minimize obj (get_parameters m) call = Inr res" and
    u: "m' = m\<lparr>beta := res_x res ! 0, sigma := res_x res ! 1, gamma := res_x res ! 2,
                  hp := res_x res ! 3, hcr := res_x res ! 4, pc := res_x res ! 5,
                  pd := res_x res ! 6, pcr := res_x res ! 7, s := res_x res ! 8,
                  t := res_x res ! 9\<rparr>"
    by blast
  have w: "fit (\<lambda>obj x0 call. map_sum id (\<lambda>r. OptimizeResult (res_x r) (\<not> res_success r))
                   (minimize obj x0 call)) solver binom_pmf m = Inr m'"
    by (simp only: fit_success_irrelevant assms)
  show ?thesis
    apply (rule exI [of _ obj], rule exI [of _ call], rule exI [of _ res])
    apply (intro conjI)
                    apply (rule e)
                   apply (simp_all only: w)
                  apply (simp_all add: u)
    done
qed

theorem fit_overwrites_parameters_witness:
  "fit (\<lambda>obj x0 call. Inr (OptimizeResult (map (\<lambda>v. v / 2) x0) False)) hold_solver
        (\<lambda>k n p. Fin (1 / 2)) (SEIR_init\<lparr>dataset := Some two_rows\<rparr>)
     = Inr (SEIR_init\<lparr>dataset := Some two_rows, beta := 3 / 20, sigma := 4 / 10,
              gamma := 15 / 200, hp := 5 / 200, hcr := 1 / 10, pc := 1 / 20, pd := 1 / 20,
              pcr := 3 / 20, s := 765 / 2000, t := 75 / 200\<rparr>)
   \<and> dataset (SEIR_init\<lparr>dataset := Some two_rows, beta := 3 / 20, sigma := 4 / 10,
              gamma := 15 / 200, hp := 5 / 200, hcr := 1 / 10, pc := 1 / 20, pd := 1 / 20,
              pcr := 3 / 20, s := 765 / 2000, t := 75 / 200\<rparr>) = Some two_rows"
proof -
  have h: "fit (\<lambda>obj x0 call. Inr (OptimizeResult (map (\<lambda>v. v / 2) x0) False)) hold_solver
        (\<lambda>k n p. Fin (1 / 2)) (SEIR_init\<lparr>dataset := Some two_rows\<rparr>)
     = Inr (SEIR_init\<lparr>dataset := Some two_rows, beta := 3 / 20, sigma := 4 / 10,
              gamma := 15 / 200, hp := 5 / 200, hcr := 1 / 10, pc := 1 / 20, pd := 1 / 20,
              pcr := 3 / 20, s := 765 / 2000, t := 75 / 200\<rparr>)"
    by (simp add: fit_def two_rows_def get_initial_state_def dataset_get_def
      dataset_column_def py_get_def bind_err_def Let_def SEIR_init_def)
  show ?thesis using fit_overwrites_parameters [OF h] h by simp
qed

subsection \<open>The prediction of the sensitivity sweep\<close>

lemma fit_keeps_dataset:
  assumes "fit minimize solver binom_pmf m = Inr m'"
  shows "dataset m' = dataset m \<and> (\<exists>st0. get_initial_state m = Inr st0)"
proof -
  from fit_Inr [OF assms] obtain obj call res st0 where
    g: "get_initial_state m = Inr st0" and
    u: "m' = m\<lparr>beta := res_x res ! 0, sigma := res_x res ! 1, gamma := res_x res ! 2,
                  hp := res_x res ! 3, hcr := res_x res ! 4, pc := res_x res ! 5,
                  pd := res_x res ! 6, pcr := res_x res ! 7, s := res_x res ! 8,
                  t := res_x res ! 9\<rparr>"
    by blast
  have "dataset m' = dataset m" using u by simp
  moreover have "\<exists>st0. get_initial_state m = Inr st0" using g by (rule exI)
  ultimately show ?thesis by (rule conjI)
qed

lemma get_initial_state_dataset:
  "dataset m' = dataset m \<Longrightarrow> get_initial_state m' = get_initial_state m"
  by (simp add: get_initial_state_def)

lemma np_arange_two: "2 \<le> d \<Longrightarrow> np_arange d = 0 # 1 # map real_of_int [2 .. d - 1]"
  by (simp add: np_arange_def upto_rec1 [of 0] upto_rec1 [of 1])

text \<open>
  With two rows or more the time grid has a second point, the integrator calls
  \<open>differential\<close> with the four parameters, and the call is a \<open>TypeError\<close>.
\<close>

lemma sensib_predict_TypeError:
  assumes "dataset m = Some rows" and "2 \<le> length rows" and "get_initial_state m = Inr st0"
  shows "sensib_predict solver m = Inl TypeError"
proof -
  have "2 \<le> int (length rows)" using assms(2) by simp
  then show ?thesis
    using assms(1,3)
    by (simp add: sensib_predict_def dataset_shape0_def predict_def odeint_def np_arange_two
        bind_err_def)
qed

lemma sensib_after_fit_TypeError:
  assumes "fit minimize solver binom_pmf (m\<lparr>s := sj\<rparr>) = Inr m1"
      and "dataset m = Some rows" and "2 \<le> length rows"
  shows "sensib_predict solver m1 = Inl TypeError"
proof -
  from fit_keeps_dataset [OF assms(1)] obtain st0 where
    d: "dataset m1 = dataset m" and g: "get_initial_state (m\<lparr>s := sj\<rparr>) = Inr st0"
    by auto
  have "get_initial_state m = Inr st0"
    using g get_initial_state_dataset [of "m\<lparr>s := sj\<rparr>" m] by simp
  then have g1: "get_initial_state m1 = Inr st0"
    using get_initial_state_dataset [OF d] by simp
  show ?thesis
    using sensib_predict_TypeError [OF _ assms(3) g1] d assms(2) by simp
qed

lemma sensib_loop_TypeError:
  assumes "py_get sensib_range (int j) = Inr sj"
      and "fit minimize solver binom_pmf (m\<lparr>s := sj\<rparr>) = Inr m1"
      and "dataset m = Some rows" and "2 \<le> length rows"
  shows "sensib_loop minimize solver binom_pmf sensib_range (j # js) (m, accuracies, best)
           = Inl TypeError"
  using assms(1,2) sensib_after_fit_TypeError [OF assms(2,3,4)]
  by (simp add: bind_err_def)

lemma np_linspace_first: "0 < num \<Longrightarrow> py_get (np_linspace start stop num) 0 = Inr start"
  by (simp add: np_linspace_def py_get_def nth_map_upt del: upt_Suc)

lemma upt_0_50: "[0 ..< 50] = 0 # [1 ..< 50]"
  by (simp add: upt_rec)

text \<open>
  C10, as stated: for every dataset the prediction step of \<open>sensib_finder\<close> fails.
  On a dataset of one row the time grid is the single point \<open>0\<close>: the integrator
  returns the initial state and never calls \<open>differential\<close>, so that the prediction
  with the four parameters, after the fit of the first grid point, returns a
  trajectory.
\<close>

theorem sensib_predict_one_row:
  "bind_err (fit minimize_start hold_solver (\<lambda>k n p. Fin (1 / 2))
               (SEIR_init\<lparr>dataset := Some one_row, s := 1 / 10\<rparr>))
     (sensib_predict hold_solver)
     = Inr [(1000000 - 1 - 10 - 1, 1, 1, 0, 10, 0, 0, 1, 10)]
   \<and> sensib_predict hold_solver (SEIR_init\<lparr>dataset := Some one_row\<rparr>)
     = Inr [(1000000 - 1 - 10 - 1, 1, 1, 0, 10, 0, 0, 1, 10)]"
  by (simp add: fit_def minimize_start_def dataset_column_def sensib_predict_def
      dataset_shape0_def predict_def odeint_def np_arange_def get_initial_state_def
      dataset_get_def py_get_def bind_err_def one_row_def Let_def)

text \<open>
  C10, amended: for every dataset of at least two rows on which the fit of the first
  grid point (\<open>s = 0.1\<close>) completes, the prediction step of \<open>sensib_finder\<close> fails
  with a \<open>TypeError\<close>, \<open>predict\<close> being called with the four parameters
  \<open>(beta, sigma, gamma, s)\<close> where \<open>differential\<close> takes ten, and \<open>sensib_finder\<close>
  ends with that error in its first iteration.
\<close>

theorem sensib_finder_TypeError:
  assumes "fit minimize solver binom_pmf (m\<lparr>s := 1 / 10\<rparr>) = Inr m1"
      and "dataset m = Some rows" and "2 \<le> length rows"
  shows "sensib_predict solver m1 = Inl TypeError
       \<and> sensib_finder minimize solver binom_pmf m = Inl TypeError"
proof -
  from fit_keeps_dataset [OF assms(1)] obtain st0 where
    g: "get_initial_state (m\<lparr>s := 1 / 10\<rparr>) = Inr st0"
    by auto
  have g0: "get_initial_state m = Inr st0"
    using g get_initial_state_dataset [of "m\<lparr>s := 1 / 10\<rparr>" m] by simp
  have l: "py_get (np_linspace (1 / 10) 1 50) (int 0) = Inr (1 / 10)"
    using np_linspace_first [of 50 "1 / 10" 1] by simp
  have sl: "sensib_loop minimize solver binom_pmf (np_linspace (1 / 10) 1 50) (0 # [1 ..< 50])
              (m, [], (PInf, 0)) = Inl TypeError"
    by (rule sensib_loop_TypeError [OF l assms])
  have "sensib_finder minimize solver binom_pmf m = Inl TypeError"
    unfolding sensib_finder_def Let_def upt_0_50 sl g0
    by (simp add: bind_err_def)
  with sensib_after_fit_TypeError [OF assms] show ?thesis by simp
qed

lemma fit_two_rows:
  "\<exists>m1. fit minimize_start hold_solver binom_pmf
          (SEIR_init\<lparr>dataset := Some two_rows, s := 1 / 10\<rparr>) = Inr m1"
  by (simp add: fit_def minimize_start_def two_rows_def get_initial_state_def dataset_get_def
      dataset_column_def py_get_def bind_err_def Let_def)

theorem sensib_finder_TypeError_witness:
  "(\<exists>m1. fit minimize_start hold_solver (\<lambda>k n p. Fin (1 / 2))
           (SEIR_init\<lparr>dataset := Some two_rows, s := 1 / 10\<rparr>) = Inr m1)
   \<and> dataset (SEIR_init\<lparr>dataset := Some two_rows\<rparr>) = Some two_rows
   \<and> 2 \<le> length two_rows
   \<and> sensib_finder minimize_start hold_solver (\<lambda>k n p. Fin (1 / 2))
        (SEIR_init\<lparr>dataset := Some two_rows\<rparr>) = Inl TypeError"
proof -
  obtain m1 where f: "fit minimize_start hold_solver (\<lambda>k n p. Fin (1 / 2))
          (SEIR_init\<lparr>dataset := Some two_rows\<rparr>\<lparr>s := 1 / 10\<rparr>) = Inr m1"
    using fit_two_rows [of "\<lambda>k n p. Fin (1 / 2)"] by auto
  have d: "dataset (SEIR_init\<lparr>dataset := Some two_rows\<rparr>) = Some two_rows" by simp
  have l: "2 \<le> length two_rows" by (simp add: two_rows_def)
  show ?thesis
    using sensib_finder_TypeError [OF f d l] fit_two_rows [of "\<lambda>k n p. Fin (1 / 2)"] d l
    by simp
qed

subsection \<open>The error of the sensitivity sweep\<close>

lemma upto_0_1: "[0 .. (1::int)] = [0, 1]"
  by (simp add: upto_rec1)

text \<open>
  C9 says that each grid point gets an error over the hospitalisation channel, with
  \<open>k\<close> from the observed hospitalised counts, and that the sweep selects the grid
  point of least error. On the dataset \<open>two_rows\<close> (daily positives \<open>1, 2\<close> in column
  1, hospitalised \<open>10, 20\<close> in column 3) the sweep ends with the \<open>TypeError\<close> of its
  first prediction: no error is computed and no grid point selected. The loop over
  the time steps, run on a trajectory of two rows with a pmf whose logarithm is
  \<open>k\<close>, returns \<open>1 + 2\<close>: its \<open>k\<close> is column 1, the daily positive tests.
\<close>

theorem sensib_error_column:
  "sensib_finder minimize_start hold_solver (\<lambda>k n p. Fin (exp k))
        (SEIR_init\<lparr>dataset := Some two_rows\<rparr>) = Inl TypeError
   \<and> sensib_prb (\<lambda>k n p. Fin (exp k)) (SEIR_init\<lparr>dataset := Some two_rows\<rparr>)
        [3 / 10, 8 / 10, 15 / 100, 765 / 1000]
        [(999978, 1, 1, 0, 10, 0, 0, 1, 10), (999978, 1, 1, 0, 10, 0, 0, 1, 10)]
        [0 .. 1] (Fin 0) = Inr (Fin (1 + 2))
   \<and> dataset_column (Some two_rows) 1 = Inr [1, 2]
   \<and> dataset_column (Some two_rows) 3 = Inr [10, 20]"
proof -
  obtain m1 where f1: "fit minimize_start hold_solver (\<lambda>k n p. Fin (exp k))
          (SEIR_init\<lparr>dataset := Some two_rows\<rparr>\<lparr>s := 1 / 10\<rparr>) = Inr m1"
    using fit_two_rows [of "\<lambda>k n p. Fin (exp k)"] by auto
  have d: "dataset (SEIR_init\<lparr>dataset := Some two_rows\<rparr>) = Some two_rows" by simp
  have l: "2 \<le> length two_rows" by (simp add: two_rows_def)
  have g: "get_initial_state (SEIR_init\<lparr>dataset := Some two_rows\<rparr>)
             = Inr (1000000 - 1 - 10 - 1, 1, 1, 0, 10, 0, 0, 1, 10)"
    by (simp add: get_initial_state_def dataset_get_def py_get_def bind_err_def two_rows_def)
  have p: "py_get (np_linspace (1 / 10) 1 50) (int 0) = Inr (1 / 10)"
    using np_linspace_first [of 50 "1 / 10" 1] by simp
  have sl: "sensib_loop minimize_start hold_solver (\<lambda>k n p. Fin (exp k))
              (np_linspace (1 / 10) 1 50) (0 # [1 ..< 50])
              (SEIR_init\<lparr>dataset := Some two_rows\<rparr>, [], (PInf, 0)) = Inl TypeError"
    by (rule sensib_loop_TypeError [OF p f1 d l])
  have a: "sensib_finder minimize_start hold_solver (\<lambda>k n p. Fin (exp k))
        (SEIR_init\<lparr>dataset := Some two_rows\<rparr>) = Inl TypeError"
    unfolding sensib_finder_def Let_def upt_0_50 sl g
    by (simp add: bind_err_def)
  have r: "np_around 1 = 1" "np_around 2 = 2"
    by (simp_all add: np_around_def)
  have b: "sensib_prb (\<lambda>k n p. Fin (exp k)) (SEIR_init\<lparr>dataset := Some two_rows\<rparr>)
        [3 / 10, 8 / 10, 15 / 100, 765 / 1000]
        [(999978, 1, 1, 0, 10, 0, 0, 1, 10), (999978, 1, 1, 0, 10, 0, 0, 1, 10)]
        [0 .. 1] (Fin 0) = Inr (Fin (1 + 2))"
    by (simp add: upto_0_1 pred_get_def dataset_get_def py_get_def bind_err_def two_rows_def r)
  have c: "dataset_column (Some two_rows) 1 = Inr [1, 2]"
     "dataset_column (Some two_rows) 3 = Inr [10, 20]"
    by (simp_all add: dataset_column_def two_rows_def py_get_def bind_err_def)
  show ?thesis using a b c by simp
qed

end
